theory Spec2Isabelle
  imports Main "HOL-Library.Sublist"
begin

section \<open>Data model\<close>

text \<open>
  A JavaScript \<open>Date\<close> is its time value in milliseconds since the epoch; \<open>None\<close> is an
  Invalid Date (time value NaN): every comparison with it is false and \<open>toISOString\<close>
  throws a RangeError on it.
\<close>

type_synonym js_date = "int option"

text \<open>
  A content item as the pollers build it (\<open>id\<close>, \<open>publishedAt\<close>/\<open>timestamp\<close>, \<open>url\<close>); the
  source-specific payload (title, caption, thumbnail) is only read by the renderers.
\<close>

record content =
  item_id :: string
  item_timestamp :: js_date
  item_url :: string

text \<open>
  Table \<open>last_updates\<close> (UNIQUE on \<open>platform\<close>). \<open>DATETIME\<close> columns filled by
  \<open>CURRENT_TIMESTAMP\<close> hold whole seconds; \<open>last_content_timestamp\<close> holds the ISO string
  of a valid date (its millisecond time value here) or NULL.
\<close>

record last_update =
  lu_id :: nat
  platform :: string
  last_check_time :: int
  last_content_id :: "string option"
  last_content_timestamp :: "int option"
  created_at :: int
  updated_at :: int

text \<open>Table \<open>sent_notifications\<close> (UNIQUE on \<open>(platform, content_id)\<close>).\<close>

record sent_notification =
  sn_id :: nat
  sn_platform :: string
  content_id :: string
  content_url :: string
  discord_message_id :: string
  sent_at :: int

text \<open>The statements the \<open>Database\<close> class runs; the engine may fail each of them.\<close>

datatype db_op =
  OpGetLastUpdate | OpUpdateLastCheck | OpIsNotificationSent | OpRecordSentNotification
  | OpCleanupOldNotifications

text \<open>
  What one pass through the \<open>try\<close> block of \<open>InstagramService.scrapeProfile\<close> meets after
  the rate-limit wait: \<open>axios.get\<close> (or the page handling) throws, with the HTTP status of
  \<open>error.response\<close> when there is one; or the page has no JSON (\<open>extractBasicInfo\<close>);
  or \<open>parseInstagramData\<close> returns posts; or \<open>parseInstagramData\<close> catches its own error.
\<close>

datatype http_outcome =
  Throws "nat option" string
  | NoJson
  | Json "content list"
  | JsonBad string

text \<open>The result object of \<open>getLatestVideos\<close> and of the two \<open>scrapeProfile\<close>s.\<close>

record fetched =
  f_success :: bool
  f_error :: string
  f_posts :: "content list"

text \<open>
  The result object of \<open>checkForNewVideos\<close>/\<open>checkForNewPosts\<close>. Where the source
  returns an object without \<open>newContent\<close> (YouTube's failed fetch) the field is \<open>[]\<close>:
  its only reader tests \<open>result.newContent?.length > 0\<close>.
\<close>

record check_result =
  success :: bool
  error :: string
  newContent :: "content list"
  totalChecked :: nat

text \<open>
  The calls that leave the process or write the store, in the order they are issued.
  \<open>EvChannelSend\<close> carries whether the channel accepted the message.
\<close>

datatype event =
  EvUpdateLastCheck string "string option" "int option"
  | EvRecordSentNotification string string
  | EvChannelSend string string bool
  | EvSendMessage "(string \<times> string) list"
  | EvHttpGet string int

text \<open>
  Everything outside the program that a run reads: the engine's error for each statement,
  the configuration, the outcome of each fetch, and the channel.
  \<open>axios_get e k\<close> is the outcome of attempt \<open>k\<close> (from 0) of one Instagram
  \<open>scrapeProfile\<close> call; \<open>linkedin_get\<close> is the posts LinkedIn's page yields, or \<open>None\<close>
  when the request or the extraction throws; \<open>linkedin_username\<close> tells whether the
  profile URL has a user name; \<open>discord_ready\<close> is \<open>this.isReady && this.announcementChannel\<close>;
  \<open>channel_send\<close> is \<open>announcementChannel.send\<close> on a rendered item (the error message, or
  the message id); \<open>sendMessage_ok\<close> tells whether the channel takes a raw message.
\<close>

record env =
  sqlite_error :: "db_op \<Rightarrow> string option"
  youtube_configured :: bool
  instagram_configured :: bool
  linkedin_configured :: bool
  getLatestVideos :: fetched
  axios_get :: "nat \<Rightarrow> http_outcome"
  linkedin_get :: "content list option"
  linkedin_username :: bool
  discord_ready :: bool
  channel_send :: "string \<Rightarrow> content \<Rightarrow> string + string"
  sendMessage_ok :: bool

text \<open>
  The mutable state: the clock (\<open>Date.now()\<close>, milliseconds), the two tables with their
  AUTOINCREMENT counters, the Instagram poller's \<open>lastRequestTime\<close> and \<open>failureCount\<close>,
  the LinkedIn poller's \<open>lastRequestTime\<close>, the scheduler's \<open>lastErrorSummaryTime\<close>, and the journal of issued calls.
  Time passes only in the waits the code makes (\<open>setTimeout\<close>) and between calls.
\<close>

record world =
  clock :: int
  last_updates :: "last_update list"
  last_updates_seq :: nat
  sent_notifications :: "sent_notification list"
  sent_notifications_seq :: nat
  instagram_lastRequestTime :: int
  instagram_failureCount :: nat
  linkedin_lastRequestTime :: int
  lastErrorSummaryTime :: int
  journal :: "event list"

definition emit :: "event \<Rightarrow> world \<Rightarrow> world" where
  "emit ev w = w\<lparr>journal := journal w @ [ev]\<rparr>"

text \<open>\<open>await new Promise(resolve => setTimeout(resolve, ms))\<close>\<close>

definition sleep :: "int \<Rightarrow> world \<Rightarrow> world" where
  "sleep ms w = w\<lparr>clock := clock w + ms\<rparr>"

section \<open>Database (the dedup store)\<close>

text \<open>SQLite's \<open>CURRENT_TIMESTAMP\<close>: the clock in whole seconds.\<close>

definition CURRENT_TIMESTAMP :: "world \<Rightarrow> int" where
  "CURRENT_TIMESTAMP w = clock w div 1000"

text \<open>\<open>SELECT * FROM last_updates WHERE platform = ?\<close>, first row or undefined.\<close>

definition getLastUpdate :: "env \<Rightarrow> string \<Rightarrow> world \<Rightarrow> string + last_update option" where
  "getLastUpdate e p w =
     (case sqlite_error e OpGetLastUpdate of
        Some err \<Rightarrow> Inl err
      | None \<Rightarrow> Inr (find (\<lambda>r. platform r = p) (last_updates w)))"

text \<open>
  \<open>INSERT OR REPLACE INTO last_updates (platform, last_check_time, last_content_id,
  last_content_timestamp, updated_at) VALUES (?, CURRENT_TIMESTAMP, ?, ?, CURRENT_TIMESTAMP)\<close>:
  the row that conflicts on \<open>platform\<close> is deleted, a fresh row is inserted
  (\<open>created_at\<close> takes its default).
\<close>

definition updateLastCheck ::
  "env \<Rightarrow> string \<Rightarrow> string option \<Rightarrow> int option \<Rightarrow> world \<Rightarrow> (string + unit) \<times> world" where
  "updateLastCheck e p lastContentId lastContentTimestamp w =
     (let w1 = emit (EvUpdateLastCheck p lastContentId lastContentTimestamp) w in
      case sqlite_error e OpUpdateLastCheck of
        Some err \<Rightarrow> (Inl err, w1)
      | None \<Rightarrow>
          (Inr (),
           w1\<lparr>last_updates :=
                 filter (\<lambda>r. platform r \<noteq> p) (last_updates w1) @
                 [\<lparr>lu_id = last_updates_seq w1 + 1, platform = p,
                   last_check_time = CURRENT_TIMESTAMP w1,
                   last_content_id = lastContentId,
                   last_content_timestamp = lastContentTimestamp,
                   created_at = CURRENT_TIMESTAMP w1,
                   updated_at = CURRENT_TIMESTAMP w1\<rparr>],
               last_updates_seq := last_updates_seq w1 + 1\<rparr>))"

text \<open>
  \<open>SELECT id FROM sent_notifications WHERE platform = ? AND content_id = ?\<close>, then
  \<open>!!row\<close>.
\<close>

definition isNotificationSent :: "env \<Rightarrow> string \<Rightarrow> string \<Rightarrow> world \<Rightarrow> string + bool" where
  "isNotificationSent e p contentId w =
     (case sqlite_error e OpIsNotificationSent of
        Some err \<Rightarrow> Inl err
      | None \<Rightarrow>
          Inr (find (\<lambda>r. sn_platform r = p \<and> content_id r = contentId)
                 (sent_notifications w) \<noteq> None))"

text \<open>
  \<open>INSERT OR REPLACE INTO sent_notifications (platform, content_id, content_url,
  discord_message_id, sent_at) VALUES (?, ?, ?, ?, CURRENT_TIMESTAMP)\<close>.
\<close>

definition recordSentNotification ::
  "env \<Rightarrow> string \<Rightarrow> string \<Rightarrow> string \<Rightarrow> string \<Rightarrow> world \<Rightarrow> (string + unit) \<times> world" where
  "recordSentNotification e p contentId contentUrl discordMessageId w =
     (let w1 = emit (EvRecordSentNotification p contentId) w in
      case sqlite_error e OpRecordSentNotification of
        Some err \<Rightarrow> (Inl err, w1)
      | None \<Rightarrow>
          (Inr (),
           w1\<lparr>sent_notifications :=
                 filter (\<lambda>r. \<not> (sn_platform r = p \<and> content_id r = contentId))
                   (sent_notifications w1) @
                 [\<lparr>sn_id = sent_notifications_seq w1 + 1, sn_platform = p,
                   content_id = contentId, content_url = contentUrl,
                   discord_message_id = discordMessageId,
                   sent_at = CURRENT_TIMESTAMP w1\<rparr>],
               sent_notifications_seq := sent_notifications_seq w1 + 1\<rparr>))"

text \<open>
  \<open>DELETE FROM sent_notifications WHERE sent_at < datetime('now', '-30 days')\<close>; the
  result carries \<open>this.changes\<close>, the number of rows deleted.
\<close>

definition cleanupOldNotifications :: "env \<Rightarrow> world \<Rightarrow> (string + nat) \<times> world" where
  "cleanupOldNotifications e w =
     (case sqlite_error e OpCleanupOldNotifications of
        Some err \<Rightarrow> (Inl err, w)
      | None \<Rightarrow>
          (let old = (\<lambda>r. sent_at r < CURRENT_TIMESTAMP w - 30 * 86400) in
           (Inr (length (filter old (sent_notifications w))),
            w\<lparr>sent_notifications := filter (\<lambda>r. \<not> old r) (sent_notifications w)\<rparr>)))"

section \<open>Helpers shared by the pollers\<close>

text \<open>
  \<open>lastUpdate?.last_content_timestamp ? new Date(lastUpdate.last_content_timestamp)
  : new Date(Date.now() - 24 * 60 * 60 * 1000)\<close>
\<close>

definition lastCheckTime :: "last_update option \<Rightarrow> world \<Rightarrow> int" where
  "lastCheckTime lastUpdate w =
     (case lastUpdate of
        None \<Rightarrow> clock w - 24 * 60 * 60 * 1000
      | Some r \<Rightarrow>
          (case last_content_timestamp r of
             None \<Rightarrow> clock w - 24 * 60 * 60 * 1000
           | Some t \<Rightarrow> t))"

text \<open>\<open>post.timestamp > lastCheckTime\<close> on two Dates.\<close>

definition date_gt :: "js_date \<Rightarrow> int \<Rightarrow> bool" where
  "date_gt d t = (case d of None \<Rightarrow> False | Some x \<Rightarrow> t < x)"

definition toISOString :: "js_date \<Rightarrow> string + int" where
  "toISOString d = (case d of None \<Rightarrow> Inl ''Invalid time value'' | Some x \<Rightarrow> Inr x)"

text \<open>\<open>String.prototype.includes\<close>\<close>

fun str_includes :: "string \<Rightarrow> string \<Rightarrow> bool" where
  "str_includes [] t = (t = [])"
| "str_includes (x # xs) t = (prefix t (x # xs) \<or> str_includes xs t)"

text \<open>
  The loop each poller runs over the items that passed the cursor:
  \<open>for (const post of newPosts) { const alreadySent = await
  database.isNotificationSent(platform, post.id); if (!alreadySent) unseenPosts.push(post) }\<close>
\<close>

fun unseenPosts :: "env \<Rightarrow> string \<Rightarrow> content list \<Rightarrow> world \<Rightarrow> string + content list" where
  "unseenPosts e p [] w = Inr []"
| "unseenPosts e p (post # rest) w =
     (case isNotificationSent e p (item_id post) w of
        Inl err \<Rightarrow> Inl err
      | Inr alreadySent \<Rightarrow>
          (case unseenPosts e p rest w of
             Inl err \<Rightarrow> Inl err
           | Inr unseen \<Rightarrow> Inr (if alreadySent then unseen else post # unseen)))"

definition failed :: "string \<Rightarrow> check_result" where
  "failed msg = \<lparr>success = False, error = msg, newContent = [], totalChecked = 0\<rparr>"

definition found :: "content list \<Rightarrow> nat \<Rightarrow> check_result" where
  "found unseen n = \<lparr>success = True, error = [], newContent = unseen, totalChecked = n\<rparr>"

section \<open>YouTubeService\<close>

text \<open>The \<open>try\<close> block of \<open>checkForNewVideos\<close>; \<open>Inl\<close> is a thrown error.\<close>

definition checkForNewVideos_try :: "env \<Rightarrow> world \<Rightarrow> (string + check_result) \<times> world" where
  "checkForNewVideos_try e w =
     (if \<not> youtube_configured e then (Inr (failed ''YouTube service not configured''), w)
      else
        case getLastUpdate e ''youtube'' w of
          Inl err \<Rightarrow> (Inl err, w)
        | Inr lastUpdate \<Rightarrow>
            (let cursor = lastCheckTime lastUpdate w;
                 result = getLatestVideos e in
             if \<not> f_success result then (Inr (failed (f_error result)), w)
             else
               (let newVideos = filter (\<lambda>video. date_gt (item_timestamp video) cursor) (f_posts result) in
                case unseenPosts e ''youtube'' newVideos w of
                  Inl err \<Rightarrow> (Inl err, w)
                | Inr unseenVideos \<Rightarrow>
                    (case f_posts result of
                       [] \<Rightarrow> (Inr (found unseenVideos 0), w)
                     | latestVideo # _ \<Rightarrow>
                         (case toISOString (item_timestamp latestVideo) of
                            Inl err \<Rightarrow> (Inl err, w)
                          | Inr stamp \<Rightarrow>
                              (case updateLastCheck e ''youtube'' (Some (item_id latestVideo)) (Some stamp) w of
                                 (Inl err, w1) \<Rightarrow> (Inl err, w1)
                               | (Inr _, w1) \<Rightarrow>
                                   (Inr (found unseenVideos (length (f_posts result))), w1)))))))"

definition checkForNewVideos :: "env \<Rightarrow> world \<Rightarrow> check_result \<times> world" where
  "checkForNewVideos e w =
     (case checkForNewVideos_try e w of
        (Inr result, w1) \<Rightarrow> (result, w1)
      | (Inl err, w1) \<Rightarrow> (failed err, w1))"

section \<open>InstagramService\<close>

text \<open>\<open>this.rateLimitDelay = 10000\<close> and \<open>this.maxRetries = 3\<close>: set in the constructor, never written again.\<close>

definition instagram_rateLimitDelay :: int where
  "instagram_rateLimitDelay = 10000"

definition maxRetries :: nat where
  "maxRetries = 3"

definition currentDelay :: "world \<Rightarrow> int" where
  "currentDelay w = instagram_rateLimitDelay * 2 ^ instagram_failureCount w"

definition respectRateLimit :: "world \<Rightarrow> world" where
  "respectRateLimit w =
     (let timeSinceLastRequest = clock w - instagram_lastRequestTime w;
          w1 = (if timeSinceLastRequest < currentDelay w
                then sleep (currentDelay w - timeSinceLastRequest) w else w)
      in w1\<lparr>instagram_lastRequestTime := clock w1\<rparr>)"

text \<open>
  One pass through the \<open>try\<close> block of \<open>scrapeProfile\<close>: \<open>Inl (status, message)\<close> is the
  thrown error, \<open>Inr\<close> the returned result.
\<close>

definition scrapeProfile_try :: "env \<Rightarrow> nat \<Rightarrow> world \<Rightarrow> ((nat option \<times> string) + fetched) \<times> world" where
  "scrapeProfile_try e attempt w =
     (if \<not> instagram_configured e then (Inl (None, ''Instagram service not configured''), w)
      else
        (let w1 = respectRateLimit w;
             w2 = emit (EvHttpGet ''instagram'' (clock w1)) w1 in
         case axios_get e attempt of
           Throws status message \<Rightarrow> (Inl (status, message), w2)
         | NoJson \<Rightarrow>
             (Inr \<lparr>f_success = True, f_error = [], f_posts = []\<rparr>, w2\<lparr>instagram_failureCount := 0\<rparr>)
         | Json posts \<Rightarrow>
             (Inr \<lparr>f_success = True, f_error = [], f_posts = take 10 posts\<rparr>,
              w2\<lparr>instagram_failureCount := 0\<rparr>)
         | JsonBad message \<Rightarrow>
             (Inr \<lparr>f_success = False, f_error = message, f_posts = []\<rparr>,
              w2\<lparr>instagram_failureCount := 0\<rparr>)))"

text \<open>The \<open>while (attempt < this.maxRetries)\<close> loop, entered with \<open>attempt\<close>.\<close>

function scrapeProfile_from :: "env \<Rightarrow> nat \<Rightarrow> world \<Rightarrow> fetched \<times> world" where
  "scrapeProfile_from e attempt w =
     (if attempt < maxRetries then
        (case scrapeProfile_try e attempt w of
           (Inr result, w1) \<Rightarrow> (result, w1)
         | (Inl (status, message), w1) \<Rightarrow>
             (let w2 = w1\<lparr>instagram_failureCount := instagram_failureCount w1 + 1\<rparr> in
              if status = Some 429 \<and> Suc attempt < maxRetries then
                scrapeProfile_from e (Suc attempt) (sleep (2 ^ Suc attempt * 30000) w2)
              else if maxRetries \<le> Suc attempt then
                (\<lparr>f_success = False,
                  f_error = ''Rate limited or blocked by Instagram. Last error: '' @ message,
                  f_posts = []\<rparr>, w2)
              else scrapeProfile_from e (Suc attempt) w2))
      else (\<lparr>f_success = False, f_error = ''Maximum retries exceeded'', f_posts = []\<rparr>, w))"
  by pat_completeness auto
termination
  by (relation "measure (\<lambda>(e, attempt, w). maxRetries - attempt)") auto

definition scrapeProfile :: "env \<Rightarrow> world \<Rightarrow> fetched \<times> world" where
  "scrapeProfile e w = scrapeProfile_from e 0 w"

text \<open>The \<open>try\<close> block of \<open>InstagramService.checkForNewPosts\<close>.\<close>

definition checkForNewPosts_try :: "env \<Rightarrow> world \<Rightarrow> (string + check_result) \<times> world" where
  "checkForNewPosts_try e w =
     (if \<not> instagram_configured e then (Inr (failed ''Instagram service not configured''), w)
      else
        case getLastUpdate e ''instagram'' w of
          Inl err \<Rightarrow> (Inl err, w)
        | Inr lastUpdate \<Rightarrow>
            (let cursor = lastCheckTime lastUpdate w in
             case scrapeProfile e w of
               (result, w1) \<Rightarrow>
                 if \<not> f_success result then (Inr (failed (f_error result)), w1)
                 else
                   (let newPosts = filter (\<lambda>post. date_gt (item_timestamp post) cursor) (f_posts result) in
                    case unseenPosts e ''instagram'' newPosts w1 of
                      Inl err \<Rightarrow> (Inl err, w1)
                    | Inr unseen \<Rightarrow>
                        (case f_posts result of
                           [] \<Rightarrow>
                             (case updateLastCheck e ''instagram'' None None w1 of
                                (Inl err, w2) \<Rightarrow> (Inl err, w2)
                              | (Inr _, w2) \<Rightarrow> (Inr (found unseen 0), w2))
                         | latestPost # _ \<Rightarrow>
                             (case toISOString (item_timestamp latestPost) of
                                Inl err \<Rightarrow> (Inl err, w1)
                              | Inr stamp \<Rightarrow>
                                  (case updateLastCheck e ''instagram'' (Some (item_id latestPost)) (Some stamp) w1 of
                                     (Inl err, w2) \<Rightarrow> (Inl err, w2)
                                   | (Inr _, w2) \<Rightarrow>
                                       (Inr (found unseen (length (f_posts result))), w2)))))))"

text \<open>
  \<open>checkForNewPosts\<close> with its \<open>catch\<close>: the store is written once more
  (\<open>updateLastCheck('instagram', null, null)\<close>, its own failure only logged).
\<close>

definition checkForNewPosts :: "env \<Rightarrow> world \<Rightarrow> check_result \<times> world" where
  "checkForNewPosts e w =
     (case checkForNewPosts_try e w of
        (Inr result, w1) \<Rightarrow> (result, w1)
      | (Inl err, w1) \<Rightarrow>
          (failed (if str_includes err ''Rate limited''
                   then ''Instagram temporarily rate limited - will retry later'' else err),
           snd (updateLastCheck e ''instagram'' None None w1)))"

section \<open>LinkedInService\<close>

definition linkedin_rateLimitDelay :: int where
  "linkedin_rateLimitDelay = 3000"

definition linkedin_respectRateLimit :: "world \<Rightarrow> world" where
  "linkedin_respectRateLimit w =
     (let timeSinceLastRequest = clock w - linkedin_lastRequestTime w;
          w1 = (if timeSinceLastRequest < linkedin_rateLimitDelay
                then sleep (linkedin_rateLimitDelay - timeSinceLastRequest) w else w)
      in w1\<lparr>linkedin_lastRequestTime := clock w1\<rparr>)"

definition tryRSSFeed :: "env \<Rightarrow> fetched" where
  "tryRSSFeed e =
     (if linkedin_username e
      then \<lparr>f_success = False,
            f_error = ''LinkedIn data access is restricted. Consider using LinkedIn API with proper authentication.'',
            f_posts = []\<rparr>
      else \<lparr>f_success = False, f_error = ''LinkedIn access restricted'', f_posts = []\<rparr>)"

definition linkedin_scrapeProfile :: "env \<Rightarrow> world \<Rightarrow> fetched \<times> world" where
  "linkedin_scrapeProfile e w =
     (if \<not> linkedin_configured e then (tryRSSFeed e, w)
      else
        (let w1 = linkedin_respectRateLimit w;
             w2 = emit (EvHttpGet ''linkedin'' (clock w1)) w1 in
         case linkedin_get e of
           None \<Rightarrow> (tryRSSFeed e, w2)
         | Some posts \<Rightarrow> (\<lparr>f_success = True, f_error = [], f_posts = posts\<rparr>, w2)))"

definition linkedin_checkForNewPosts_try :: "env \<Rightarrow> world \<Rightarrow> (string + check_result) \<times> world" where
  "linkedin_checkForNewPosts_try e w =
     (if \<not> linkedin_configured e then (Inr (failed ''LinkedIn service not configured''), w)
      else
        case getLastUpdate e ''linkedin'' w of
          Inl err \<Rightarrow> (Inl err, w)
        | Inr lastUpdate \<Rightarrow>
            (let cursor = lastCheckTime lastUpdate w in
             case linkedin_scrapeProfile e w of
               (result, w1) \<Rightarrow>
                 if \<not> f_success result then (Inr (failed (f_error result)), w1)
                 else
                   (let newPosts = filter (\<lambda>post. date_gt (item_timestamp post) cursor) (f_posts result) in
                    case unseenPosts e ''linkedin'' newPosts w1 of
                      Inl err \<Rightarrow> (Inl err, w1)
                    | Inr unseen \<Rightarrow>
                        (case f_posts result of
                           [] \<Rightarrow>
                             (case updateLastCheck e ''linkedin'' None None w1 of
                                (Inl err, w2) \<Rightarrow> (Inl err, w2)
                              | (Inr _, w2) \<Rightarrow> (Inr (found unseen 0), w2))
                         | latestPost # _ \<Rightarrow>
                             (case toISOString (item_timestamp latestPost) of
                                Inl err \<Rightarrow> (Inl err, w1)
                              | Inr stamp \<Rightarrow>
                                  (case updateLastCheck e ''linkedin'' (Some (item_id latestPost)) (Some stamp) w1 of
                                     (Inl err, w2) \<Rightarrow> (Inl err, w2)
                                   | (Inr _, w2) \<Rightarrow>
                                       (Inr (found unseen (length (f_posts result))), w2)))))))"

definition linkedin_checkForNewPosts :: "env \<Rightarrow> world \<Rightarrow> check_result \<times> world" where
  "linkedin_checkForNewPosts e w =
     (case linkedin_checkForNewPosts_try e w of
        (Inr result, w1) \<Rightarrow> (result, w1)
      | (Inl err, w1) \<Rightarrow> (failed err, w1))"

section \<open>DiscordService\<close>

text \<open>
  The \<open>switch (platform)\<close> of \<open>sendSocialMediaUpdate\<close>: each of the three renderers ends in
  \<open>timestamp.toISOString()\<close>; any other platform throws. The rendered embed stands for
  the item it renders.
\<close>

definition formatForDiscord :: "string \<Rightarrow> content \<Rightarrow> string + content" where
  "formatForDiscord p c =
     (if p = ''youtube'' \<or> p = ''instagram'' \<or> p = ''linkedin'' then
        (case toISOString (item_timestamp c) of Inl err \<Rightarrow> Inl err | Inr _ \<Rightarrow> Inr c)
      else Inl (''Unknown platform: '' @ p))"

text \<open>\<open>sendSocialMediaUpdate\<close>: \<open>Inl\<close> is the error it rethrows, \<open>Inr\<close> the message id.\<close>

definition sendSocialMediaUpdate ::
  "env \<Rightarrow> content \<Rightarrow> string \<Rightarrow> world \<Rightarrow> (string + string) \<times> world" where
  "sendSocialMediaUpdate e c p w =
     (if \<not> discord_ready e
      then (Inl ''Discord bot not ready or announcement channel not available'', w)
      else
        case formatForDiscord p c of
          Inl err \<Rightarrow> (Inl err, w)
        | Inr rendered \<Rightarrow>
            (case channel_send e p rendered of
               Inl err \<Rightarrow> (Inl err, emit (EvChannelSend p (item_id c) False) w)
             | Inr messageId \<Rightarrow>
                 (case recordSentNotification e p (item_id c) (item_url c) messageId
                         (emit (EvChannelSend p (item_id c) True) w) of
                    (Inl err, w1) \<Rightarrow> (Inl err, w1)
                  | (Inr _, w1) \<Rightarrow> (Inr messageId, w1))))"

section \<open>Scheduler\<close>

text \<open>
  The \<open>for (const item of content)\<close> loop of \<open>sendNotifications\<close>; \<open>n\<close> is
  \<open>content.length\<close>. The inner \<open>catch\<close> logs the error and the loop goes on.
\<close>

fun sendNotifications_loop :: "env \<Rightarrow> nat \<Rightarrow> content list \<Rightarrow> string \<Rightarrow> world \<Rightarrow> world" where
  "sendNotifications_loop e n [] p w = w"
| "sendNotifications_loop e n (item # rest) p w =
     (case sendSocialMediaUpdate e item p w of
        (Inr _, w1) \<Rightarrow> sendNotifications_loop e n rest p (if 1 < n then sleep 1000 w1 else w1)
      | (Inl _, w1) \<Rightarrow> sendNotifications_loop e n rest p w1)"

definition sendNotifications :: "env \<Rightarrow> content list \<Rightarrow> string \<Rightarrow> world \<Rightarrow> world" where
  "sendNotifications e items p w = sendNotifications_loop e (length items) items p w"

text \<open>
  \<open>sendErrorSummary\<close>: at most one summary an hour; the message is the list of failed
  platforms with their errors.
\<close>

definition sendErrorSummary :: "env \<Rightarrow> (string \<times> check_result) list \<Rightarrow> world \<Rightarrow> world" where
  "sendErrorSummary e results w =
     (let failedChecks = filter (\<lambda>r. \<not> success (snd r)) results in
      if failedChecks = [] then w
      else if 60 * 60 * 1000 < clock w - lastErrorSummaryTime w then
        (if \<not> discord_ready e then w
         else
           (let w1 = emit (EvSendMessage (map (\<lambda>r. (fst r, error (snd r))) failedChecks)) w in
            if sendMessage_ok e then w1\<lparr>lastErrorSummaryTime := clock w1\<rparr> else w1))
      else w)"

text \<open>
  One platform's block of \<open>performScheduledCheck\<close>: the check, then the notifications
  for what it reported.
\<close>

definition checkPlatform ::
  "env \<Rightarrow> bool \<Rightarrow> (env \<Rightarrow> world \<Rightarrow> check_result \<times> world) \<Rightarrow> string \<Rightarrow> string \<Rightarrow> world \<Rightarrow>
   (string \<times> check_result) list \<times> world" where
  "checkPlatform e configured check name p w =
     (if configured then
        (case check e w of
           (result, w1) \<Rightarrow>
             ([(name, result)],
              if success result \<and> 0 < length (newContent result)
              then sendNotifications e (newContent result) p w1 else w1))
      else ([], w))"

definition performScheduledCheck :: "env \<Rightarrow> world \<Rightarrow> world" where
  "performScheduledCheck e w =
     (case checkPlatform e (youtube_configured e) checkForNewVideos ''YouTube'' ''youtube'' w of
        (r1, w1) \<Rightarrow>
          (case checkPlatform e (instagram_configured e) checkForNewPosts ''Instagram'' ''instagram'' w1 of
             (r2, w2) \<Rightarrow>
               (case checkPlatform e (linkedin_configured e) linkedin_checkForNewPosts ''LinkedIn'' ''linkedin'' w2 of
                  (r3, w3) \<Rightarrow>
                    (let results = r1 @ r2 @ r3;
                         successfulChecks = length (filter (\<lambda>r. success (snd r)) results);
                         totalChecks = length results
                     in if successfulChecks < totalChecks then sendErrorSummary e results w3 else w3))))"

section \<open>Observations the statements are written with\<close>

text \<open>A row of \<open>sent_notifications\<close> exists for \<open>(p, cid)\<close>.\<close>

definition sent :: "string \<Rightarrow> string \<Rightarrow> world \<Rightarrow> bool" where
  "sent p cid w = (\<exists>r \<in> set (sent_notifications w). sn_platform r = p \<and> content_id r = cid)"

definition rows_for :: "string \<Rightarrow> string \<Rightarrow> world \<Rightarrow> sent_notification list" where
  "rows_for p cid w =
     filter (\<lambda>r. sn_platform r = p \<and> content_id r = cid) (sent_notifications w)"

text \<open>The cursor row of a platform, and its \<open>last_check_time\<close>.\<close>

definition cursor_row :: "string \<Rightarrow> world \<Rightarrow> last_update option" where
  "cursor_row p w = find (\<lambda>r. platform r = p) (last_updates w)"

definition check_time :: "string \<Rightarrow> world \<Rightarrow> int option" where
  "check_time p w = map_option last_check_time (cursor_row p w)"

text \<open>
  \<open>check_time_le a b\<close>: a stored time \<open>a\<close> is still there in \<open>b\<close> and has not decreased
  (no row yet is below every time).
\<close>

definition check_time_le :: "int option \<Rightarrow> int option \<Rightarrow> bool" where
  "check_time_le a b =
     (case a of None \<Rightarrow> True | Some x \<Rightarrow> (case b of None \<Rightarrow> False | Some y \<Rightarrow> x \<le> y))"

text \<open>No stored check time is ahead of the store's clock.\<close>

definition store_inv :: "world \<Rightarrow> bool" where
  "store_inv w = list_all (\<lambda>r. last_check_time r \<le> CURRENT_TIMESTAMP w) (last_updates w)"

text \<open>
  A history of the store: calls of the \<open>Database\<close> methods, with time passing between
  them (\<open>Elapse\<close>, in milliseconds).
\<close>

datatype store_call =
  GetLastUpdate string
  | UpdateLastCheck string "string option" "int option"
  | IsNotificationSent string string
  | RecordSentNotification string string string string
  | CleanupOldNotifications
  | Elapse nat

fun store_step :: "env \<Rightarrow> store_call \<Rightarrow> world \<Rightarrow> world" where
  "store_step e (GetLastUpdate p) w = w"
| "store_step e (UpdateLastCheck p cid ts) w = snd (updateLastCheck e p cid ts w)"
| "store_step e (IsNotificationSent p cid) w = w"
| "store_step e (RecordSentNotification p cid url mid) w = snd (recordSentNotification e p cid url mid w)"
| "store_step e CleanupOldNotifications w = snd (cleanupOldNotifications e w)"
| "store_step e (Elapse ms) w = sleep (int ms) w"

fun store_run :: "env \<Rightarrow> store_call list \<Rightarrow> world \<Rightarrow> world" where
  "store_run e [] w = w"
| "store_run e (c # cs) w = store_run e cs (store_step e c w)"

section \<open>A concrete environment and state\<close>

text \<open>
  Everything configured, the engine and the channel working, every fetch empty; the
  store empty at clock \<open>1700000000000\<close>.
\<close>

definition example_env :: env where
  "example_env =
     \<lparr>sqlite_error = (\<lambda>_. None),
      youtube_configured = True, instagram_configured = True, linkedin_configured = True,
      getLatestVideos = \<lparr>f_success = True, f_error = [], f_posts = []\<rparr>,
      axios_get = (\<lambda>_. NoJson),
      linkedin_get = Some [],
      linkedin_username = True,
      discord_ready = True,
      channel_send = (\<lambda>p c. Inr (''msg-'' @ item_id c)),
      sendMessage_ok = True\<rparr>"

definition example_world :: world where
  "example_world =
     \<lparr>clock = 1700000000000,
      last_updates = [], last_updates_seq = 0,
      sent_notifications = [], sent_notifications_seq = 0,
      instagram_lastRequestTime = 0, instagram_failureCount = 0,
      linkedin_lastRequestTime = 0, lastErrorSummaryTime = 0,
      journal = []\<rparr>"

text \<open>
  One item published a second before the clock of \<open>example_world\<close>, and an environment
  in which every source's fetch returns exactly that item.
\<close>

definition item_x1 :: content where
  "item_x1 = \<lparr>item_id = ''x1'', item_timestamp = Some 1699999999000, item_url = ''https://example.org/x1''\<rparr>"

definition feed_env :: env where
  "feed_env =
     example_env\<lparr>getLatestVideos := \<lparr>f_success = True, f_error = [], f_posts = [item_x1]\<rparr>,
                 axios_get := (\<lambda>_. Json [item_x1]),
                 linkedin_get := Some [item_x1]\<rparr>"

text \<open>The store after \<open>x1\<close> has been delivered for each of the three platforms.\<close>

definition sent_world :: world where
  "sent_world =
     example_world\<lparr>sent_notifications :=
       [\<lparr>sn_id = 1, sn_platform = ''youtube'', content_id = ''x1'',
         content_url = ''https://example.org/x1'', discord_message_id = ''msg-x1'', sent_at = 1699999000\<rparr>,
        \<lparr>sn_id = 2, sn_platform = ''instagram'', content_id = ''x1'',
         content_url = ''https://example.org/x1'', discord_message_id = ''msg-x1'', sent_at = 1699999000\<rparr>,
        \<lparr>sn_id = 3, sn_platform = ''linkedin'', content_id = ''x1'',
         content_url = ''https://example.org/x1'', discord_message_id = ''msg-x1'', sent_at = 1699999000\<rparr>],
       sent_notifications_seq := 3\<rparr>"

text \<open>
  A store whose three cursors were written at second \<open>1699999000\<close>, each pointing at item
  \<open>p1\<close> of time \<open>1699998000000\<close>.
\<close>

definition cursor_at :: "nat \<Rightarrow> string \<Rightarrow> last_update" where
  "cursor_at n p =
     \<lparr>lu_id = n, platform = p, last_check_time = 1699999000,
      last_content_id = Some ''p1'', last_content_timestamp = Some 1699998000000,
      created_at = 1699999000, updated_at = 1699999000\<rparr>"

definition cursor_world :: world where
  "cursor_world =
     example_world\<lparr>last_updates :=
       [cursor_at 1 ''youtube'', cursor_at 2 ''instagram'', cursor_at 3 ''linkedin''],
       last_updates_seq := 3\<rparr>"

text \<open>What a platform's cursor row holds of the last item seen.\<close>

definition cursor_timestamp :: "string \<Rightarrow> world \<Rightarrow> int option" where
  "cursor_timestamp p w = Option.bind (cursor_row p w) last_content_timestamp"

definition cursor_content_id :: "string \<Rightarrow> world \<Rightarrow> string option" where
  "cursor_content_id p w = Option.bind (cursor_row p w) last_content_id"





section \<open>Observations of the journal\<close>

text \<open>The calls issued between two states of one run.\<close>

definition since :: "world \<Rightarrow> world \<Rightarrow> event list" where
  "since w w' = drop (length (journal w)) (journal w')"

text \<open>The times at which Instagram's page was requested.\<close>

fun request_times :: "event list \<Rightarrow> int list" where
  "request_times [] = []"
| "request_times (EvHttpGet p t # es) =
     (if p = ''instagram'' then t # request_times es else request_times es)"
| "request_times (_ # es) = request_times es"






definition down_env :: env where
  "down_env =
     example_env\<lparr>axios_get := (\<lambda>_. Throws (Some 500) ''Request failed with status code 500'')\<rparr>"

text \<open>The poller after one failure, ten seconds after its last request.\<close>

definition backoff_world :: world where
  "backoff_world =
     example_world\<lparr>instagram_failureCount := 1, instagram_lastRequestTime := 1699999990000\<rparr>"

text \<open>
  The content ids of the channel sends attempted for a platform, and of the
  \<open>recordSentNotification\<close> calls issued for it.
\<close>

fun channel_attempts :: "string \<Rightarrow> event list \<Rightarrow> string list" where
  "channel_attempts p [] = []"
| "channel_attempts p (EvChannelSend q cid ok # es) =
     (if q = p then cid # channel_attempts p es else channel_attempts p es)"
| "channel_attempts p (_ # es) = channel_attempts p es"

fun record_calls :: "string \<Rightarrow> event list \<Rightarrow> string list" where
  "record_calls p [] = []"
| "record_calls p (EvRecordSentNotification q cid # es) =
     (if q = p then cid # record_calls p es else record_calls p es)"
| "record_calls p (_ # es) = record_calls p es"





text \<open>
  A call that writes a platform's cursor, and a call that delivers one of its items (the
  channel send, or the record of it).
\<close>

definition is_cursor_update :: "string \<Rightarrow> event \<Rightarrow> bool" where
  "is_cursor_update p ev = (case ev of EvUpdateLastCheck q _ _ \<Rightarrow> q = p | _ \<Rightarrow> False)"

definition is_delivery :: "string \<Rightarrow> event \<Rightarrow> bool" where
  "is_delivery p ev =
     (case ev of
        EvChannelSend q _ _ \<Rightarrow> q = p
      | EvRecordSentNotification q _ \<Rightarrow> q = p
      | _ \<Rightarrow> False)"

text \<open>
  \<open>cursor_update_last\<close>: once the platform's cursor has been written, none of its items
  is delivered any more (the cursor update comes after all the sends).
  \<open>cursor_update_first\<close>: once one of the platform's items has been delivered, its
  cursor is not written any more (the cursor update comes before all the sends).
\<close>

definition cursor_update_last :: "string \<Rightarrow> event list \<Rightarrow> bool" where
  "cursor_update_last p es =
     (\<not> list_ex (is_delivery p) (dropWhile (\<lambda>ev. \<not> is_cursor_update p ev) es))"

definition cursor_update_first :: "string \<Rightarrow> event list \<Rightarrow> bool" where
  "cursor_update_first p es =
     (\<not> list_ex (is_cursor_update p) (dropWhile (\<lambda>ev. \<not> is_delivery p ev) es))"

text \<open>
  What a platform's check may issue (cursor writes of that platform, page requests);
  and a step of a run that issues only calls of an allowed kind.
\<close>

definition check_event :: "string \<Rightarrow> event \<Rightarrow> bool" where
  "check_event p ev =
     (case ev of EvUpdateLastCheck q _ _ \<Rightarrow> q = p | EvHttpGet _ _ \<Rightarrow> True | _ \<Rightarrow> False)"

definition issues :: "(event \<Rightarrow> bool) \<Rightarrow> world \<Rightarrow> world \<Rightarrow> bool" where
  "issues allowed w w' = (\<exists>evs. journal w' = journal w @ evs \<and> list_all allowed evs)"

text \<open>
  Only YouTube configured, its fetch returning \<open>item_x1\<close>; and the same with a channel
  that refuses every message.
\<close>

definition youtube_only_env :: env where
  "youtube_only_env = feed_env\<lparr>instagram_configured := False, linkedin_configured := False\<rparr>"

definition refusing_env :: env where
  "refusing_env = youtube_only_env\<lparr>channel_send := (\<lambda>p c. Inl ''Missing Access'')\<rparr>"

declare scrapeProfile_from.simps [simp del]

section \<open>The store's tables under the two upserts\<close>

lemma find_platform_replace:
  "platform x = p \<Longrightarrow>
   find (\<lambda>r. platform r = q) (filter (\<lambda>r. platform r \<noteq> p) xs @ [x]) =
     (if q = p then Some x else find (\<lambda>r. platform r = q) xs)"
  by (induction xs) auto

lemma cursor_row_updateLastCheck:
  "cursor_row q (snd (updateLastCheck e p cid ts w)) =
     (if sqlite_error e OpUpdateLastCheck = None \<and> q = p
      then Some \<lparr>lu_id = last_updates_seq w + 1, platform = p,
                 last_check_time = CURRENT_TIMESTAMP w,
                 last_content_id = cid, last_content_timestamp = ts,
                 created_at = CURRENT_TIMESTAMP w, updated_at = CURRENT_TIMESTAMP w\<rparr>
      else cursor_row q w)"
  unfolding cursor_row_def updateLastCheck_def emit_def CURRENT_TIMESTAMP_def
  by (simp add: Let_def find_platform_replace split: option.splits)

lemma rows_for_recordSentNotification:
  "rows_for q c (snd (recordSentNotification e p cid url mid w)) =
     (if sqlite_error e OpRecordSentNotification = None \<and> q = p \<and> c = cid
      then [\<lparr>sn_id = sent_notifications_seq w + 1, sn_platform = p, content_id = cid,
             content_url = url, discord_message_id = mid, sent_at = CURRENT_TIMESTAMP w\<rparr>]
      else rows_for q c w)"
  unfolding rows_for_def recordSentNotification_def emit_def CURRENT_TIMESTAMP_def
  by (auto simp: Let_def filter_empty_conv split: option.splits intro!: filter_cong)

lemma sent_rows_for: "sent p cid w = (rows_for p cid w \<noteq> [])"
  unfolding sent_def rows_for_def by (auto simp: filter_empty_conv)

lemma isNotificationSent_sent:
  "isNotificationSent e p cid w =
     (case sqlite_error e OpIsNotificationSent of Some err \<Rightarrow> Inl err | None \<Rightarrow> Inr (sent p cid w))"
  unfolding isNotificationSent_def sent_def
  by (auto simp: find_None_iff split: option.splits)

lemma rows_for_sleep [simp]: "rows_for p cid (sleep ms w) = rows_for p cid w"
  by (simp add: rows_for_def sleep_def)

section \<open>C5: recording a sent notification is idempotent\<close>

text \<open>
  C5. While the engine accepts the statements, \<open>recordSentNotification\<close> leaves exactly
  one row for its key \<open>(platform, content_id)\<close>, and \<open>isNotificationSent\<close> answers true
  from the first call on. A second call with the same key, at any later time and with
  any URL and message id, still leaves exactly one row for the key, and that row carries
  the second call's values: it overwrites, it does not duplicate.
\<close>

theorem recordSentNotification_idempotent:
  assumes "sqlite_error e OpRecordSentNotification = None"
    and "sqlite_error e OpIsNotificationSent = None"
  shows "length (rows_for p cid (snd (recordSentNotification e p cid url mid w))) = 1 \<and>
         isNotificationSent e p cid (snd (recordSentNotification e p cid url mid w)) = Inr True \<and>
         length (rows_for p cid
           (snd (recordSentNotification e p cid url' mid'
              (sleep (int ms) (snd (recordSentNotification e p cid url mid w)))))) = 1 \<and>
         map content_url (rows_for p cid
           (snd (recordSentNotification e p cid url' mid'
              (sleep (int ms) (snd (recordSentNotification e p cid url mid w)))))) = [url'] \<and>
         map discord_message_id (rows_for p cid
           (snd (recordSentNotification e p cid url' mid'
              (sleep (int ms) (snd (recordSentNotification e p cid url mid w)))))) = [mid']"
  using assms
  by (simp add: rows_for_recordSentNotification isNotificationSent_sent sent_rows_for)

theorem recordSentNotification_idempotent_witness:
  "sqlite_error example_env OpRecordSentNotification = None \<and>
   sqlite_error example_env OpIsNotificationSent = None \<and>
   length (rows_for ''youtube'' ''v1''
     (snd (recordSentNotification example_env ''youtube'' ''v1'' ''u1'' ''m1'' example_world))) = 1 \<and>
   isNotificationSent example_env ''youtube'' ''v1''
     (snd (recordSentNotification example_env ''youtube'' ''v1'' ''u1'' ''m1'' example_world)) = Inr True \<and>
   length (rows_for ''youtube'' ''v1''
     (snd (recordSentNotification example_env ''youtube'' ''v1'' ''u2'' ''m2''
        (sleep (int 5000)
           (snd (recordSentNotification example_env ''youtube'' ''v1'' ''u1'' ''m1'' example_world)))))) = 1"
  using recordSentNotification_idempotent
    [where e = example_env and p = "''youtube''" and cid = "''v1''" and url = "''u1''"
       and mid = "''m1''" and w = example_world and url' = "''u2''" and mid' = "''m2''"
       and ms = 5000]
  by (simp add: example_env_def)


lemma check_time_updateLastCheck:
  "check_time q (snd (updateLastCheck e p cid ts w)) =
     (if sqlite_error e OpUpdateLastCheck = None \<and> q = p
      then Some (CURRENT_TIMESTAMP w) else check_time q w)"
  by (simp add: check_time_def cursor_row_updateLastCheck)

lemma store_inv_check_time:
  "store_inv w \<Longrightarrow> check_time p w = Some t \<Longrightarrow> t \<le> CURRENT_TIMESTAMP w"
  by (auto simp: store_inv_def check_time_def cursor_row_def list_all_iff find_Some_iff)

lemma check_time_le_refl [simp]: "check_time_le a a"
  by (simp add: check_time_le_def split: option.splits)

lemma check_time_le_trans: "check_time_le a b \<Longrightarrow> check_time_le b c \<Longrightarrow> check_time_le a c"
  by (auto simp: check_time_le_def split: option.splits)

lemma updateLastCheck_monotone:
  "store_inv w \<Longrightarrow> check_time_le (check_time q w) (check_time q (snd (updateLastCheck e p cid ts w)))"
  by (auto simp: check_time_updateLastCheck check_time_le_def dest: store_inv_check_time
      split: option.splits)

lemma store_inv_updateLastCheck:
  "store_inv w \<Longrightarrow> store_inv (snd (updateLastCheck e p cid ts w))"
  by (auto simp: store_inv_def updateLastCheck_def emit_def CURRENT_TIMESTAMP_def Let_def
      list_all_iff split: option.splits)

lemma recordSentNotification_frame:
  "last_updates (snd (recordSentNotification e p cid url mid w)) = last_updates w"
  "clock (snd (recordSentNotification e p cid url mid w)) = clock w"
  by (simp_all add: recordSentNotification_def emit_def Let_def split: option.splits)

lemma cleanupOldNotifications_frame:
  "last_updates (snd (cleanupOldNotifications e w)) = last_updates w"
  "clock (snd (cleanupOldNotifications e w)) = clock w"
  by (simp_all add: cleanupOldNotifications_def Let_def split: option.splits)

lemma store_inv_cong:
  "last_updates w' = last_updates w \<Longrightarrow> clock w \<le> clock w' \<Longrightarrow> store_inv w \<Longrightarrow> store_inv w'"
proof -
  assume lu: "last_updates w' = last_updates w" and c: "clock w \<le> clock w'" and inv: "store_inv w"
  have "clock w div 1000 \<le> clock w' div 1000"
    using c by (intro zdiv_mono1) simp_all
  then show ?thesis
    using inv lu unfolding store_inv_def CURRENT_TIMESTAMP_def list_all_iff by fastforce
qed

lemma check_time_cong:
  "last_updates w' = last_updates w \<Longrightarrow> check_time p w' = check_time p w"
  by (simp add: check_time_def cursor_row_def)

lemma store_inv_sleep: "0 \<le> ms \<Longrightarrow> store_inv w \<Longrightarrow> store_inv (sleep ms w)"
  by (rule store_inv_cong [of _ w]) (simp_all add: sleep_def)

lemma store_inv_recordSentNotification:
  "store_inv w \<Longrightarrow> store_inv (snd (recordSentNotification e p cid url mid w))"
  by (rule store_inv_cong [of _ w]) (simp_all add: recordSentNotification_frame)

lemma store_inv_cleanupOldNotifications:
  "store_inv w \<Longrightarrow> store_inv (snd (cleanupOldNotifications e w))"
  by (rule store_inv_cong [of _ w]) (simp_all add: cleanupOldNotifications_frame)

lemma store_step_inv: "store_inv w \<Longrightarrow> store_inv (store_step e c w)"
  by (cases c)
     (simp_all add: store_inv_updateLastCheck store_inv_recordSentNotification
        store_inv_cleanupOldNotifications store_inv_sleep)

lemma store_step_monotone:
  assumes inv: "store_inv w"
  shows "check_time_le (check_time p w) (check_time p (store_step e c w))"
proof (cases c)
  case (UpdateLastCheck q cid ts)
  then show ?thesis using inv by (simp add: updateLastCheck_monotone)
next
  case (RecordSentNotification q cid url mid)
  then show ?thesis
    by (simp add: check_time_cong [OF recordSentNotification_frame(1)])
next
  case CleanupOldNotifications
  then show ?thesis
    by (simp add: check_time_cong [OF cleanupOldNotifications_frame(1)])
next
  case (Elapse ms)
  then show ?thesis by (simp add: check_time_def cursor_row_def sleep_def)
qed simp_all

lemma store_run_inv: "store_inv w \<Longrightarrow> store_inv (store_run e calls w)"
  by (induction calls arbitrary: w) (simp_all add: store_step_inv)

section \<open>C6: \<open>last_check_time\<close> never decreases\<close>

text \<open>
  C6. The store writes \<open>last_check_time\<close> only in \<open>updateLastCheck\<close>, and writes the
  clock (\<open>CURRENT_TIMESTAMP\<close>) there; no other method touches \<open>last_updates\<close>. So from
  a store in which no stored check time is ahead of the clock, along every history of
  store calls, with any amount of time passing between them, the \<open>last_check_time\<close> of
  every platform stays in place and never decreases, whether the engine accepts a
  statement or fails it. Time is the clock of the state, which only moves forward.
\<close>

theorem last_check_time_monotone:
  "store_inv w \<Longrightarrow> check_time_le (check_time p w) (check_time p (store_run e calls w))"
proof (induction calls arbitrary: w)
  case Nil
  then show ?case by simp
next
  case (Cons c cs)
  have "check_time_le (check_time p w) (check_time p (store_step e c w))"
    using Cons.prems by (rule store_step_monotone)
  moreover have "check_time_le (check_time p (store_step e c w))
      (check_time p (store_run e cs (store_step e c w)))"
    using Cons.prems by (intro Cons.IH store_step_inv)
  ultimately show ?case by (auto intro: check_time_le_trans)
qed

theorem last_check_time_monotone_witness:
  "store_inv cursor_world \<and>
   check_time ''instagram'' cursor_world = Some 1699999000 \<and>
   check_time_le (check_time ''instagram'' cursor_world)
     (check_time ''instagram''
        (store_run example_env
           [Elapse 5000, UpdateLastCheck ''instagram'' None None, GetLastUpdate ''instagram'',
            RecordSentNotification ''instagram'' ''p2'' ''u'' ''m'', CleanupOldNotifications]
           cursor_world))"
  using last_check_time_monotone
    [where w = cursor_world and p = "''instagram''" and e = example_env
       and calls = "[Elapse 5000, UpdateLastCheck ''instagram'' None None,
            GetLastUpdate ''instagram'',
            RecordSentNotification ''instagram'' ''p2'' ''u'' ''m'', CleanupOldNotifications]"]
  by (simp add: store_inv_def cursor_world_def cursor_at_def example_world_def
      CURRENT_TIMESTAMP_def check_time_def cursor_row_def)

lemma unseenPosts_eq:
  "unseenPosts e p xs w =
     (case sqlite_error e OpIsNotificationSent of
        Some err \<Rightarrow> (if xs = [] then Inr [] else Inl err)
      | None \<Rightarrow> Inr (filter (\<lambda>c. \<not> sent p (item_id c) w) xs))"
  by (induction xs) (auto simp: isNotificationSent_sent split: option.splits)

lemma unseenPosts_Inr:
  "unseenPosts e p xs w = Inr ys \<Longrightarrow> ys = filter (\<lambda>c. \<not> sent p (item_id c) w) xs"
  by (auto simp: unseenPosts_eq split: option.splits if_splits)

lemma unseenPosts_unsent:
  "unseenPosts e p xs w = Inr ys \<Longrightarrow> c \<in> set ys \<Longrightarrow> \<not> sent p (item_id c) w"
  by (auto dest: unseenPosts_Inr)

lemma scrapeProfile_from_rel:
  assumes R_refl: "\<And>w. R w w"
    and R_trans: "\<And>a b c. R a b \<Longrightarrow> R b c \<Longrightarrow> R a c"
    and R_try: "\<And>a w. R w (snd (scrapeProfile_try e a w))"
    and R_fail: "\<And>w. R w (w\<lparr>instagram_failureCount := instagram_failureCount w + 1\<rparr>)"
    and R_wait: "\<And>w ms. 0 \<le> ms \<Longrightarrow> R w (sleep ms w)"
  shows "R w (snd (scrapeProfile_from e a w))"
proof (induction "maxRetries - a" arbitrary: a w)
  case 0
  then have "\<not> a < maxRetries" by simp
  then show ?case by (subst scrapeProfile_from.simps) (simp add: R_refl)
next
  case (Suc n)
  then have lt: "a < maxRetries" and n: "n = maxRetries - Suc a" by simp_all
  note ih = Suc.hyps(1) [OF n]
  obtain res w1 where tr: "scrapeProfile_try e a w = (res, w1)"
    by (cases "scrapeProfile_try e a w")
  have step: "R w w1"
    using R_try [of w a] by (simp add: tr)
  show ?case
  proof (cases res)
    case (Inr result)
    then show ?thesis using lt tr step
      by (subst scrapeProfile_from.simps) simp
  next
    case (Inl err)
    obtain status message where err: "err = (status, message)" by (cases err)
    let ?w2 = "w1\<lparr>instagram_failureCount := instagram_failureCount w1 + 1\<rparr>"
    have w2: "R w ?w2" using step R_fail [of w1] by (rule R_trans)
    have "R ?w2 (sleep (2 ^ Suc a * 30000) ?w2)"
      by (rule R_wait) simp
    then have w3: "R w (sleep (2 ^ Suc a * 30000) ?w2)"
      using w2 by (blast intro: R_trans)
    have r1: "R w (snd (scrapeProfile_from e (Suc a) (sleep (2 ^ Suc a * 30000) ?w2)))"
      using w3 ih by (rule R_trans)
    have r2: "R w (snd (scrapeProfile_from e (Suc a) ?w2))"
      using w2 ih by (rule R_trans)
    show ?thesis
      using lt tr Inl err w2 r1 r2
      by (subst scrapeProfile_from.simps) (simp add: Let_def)
  qed
qed

lemma scrapeProfile_frame:
  "sent_notifications (snd (scrapeProfile e w)) = sent_notifications w \<and>
   last_updates (snd (scrapeProfile e w)) = last_updates w \<and>
   sent_notifications_seq (snd (scrapeProfile e w)) = sent_notifications_seq w \<and>
   last_updates_seq (snd (scrapeProfile e w)) = last_updates_seq w \<and>
   clock w \<le> clock (snd (scrapeProfile e w))"
  unfolding scrapeProfile_def
  by (rule scrapeProfile_from_rel
        [where R = "\<lambda>w w'. sent_notifications w' = sent_notifications w \<and>
           last_updates w' = last_updates w \<and>
           sent_notifications_seq w' = sent_notifications_seq w \<and>
           last_updates_seq w' = last_updates_seq w \<and> clock w \<le> clock w'"])
     (auto simp: scrapeProfile_try_def respectRateLimit_def sleep_def emit_def Let_def
        split: http_outcome.splits)

lemma sent_cong: "sent_notifications w' = sent_notifications w \<Longrightarrow> sent p c w' = sent p c w"
  by (simp add: sent_def)

lemma checkForNewPosts_try_rel:
  assumes R_refl: "\<And>w. R w w"
    and R_trans: "\<And>a b c. R a b \<Longrightarrow> R b c \<Longrightarrow> R a c"
    and R_scrape: "\<And>w. R w (snd (scrapeProfile e w))"
    and R_update: "\<And>cid ts w. R w (snd (updateLastCheck e ''instagram'' cid ts w))"
  shows "R w (snd (checkForNewPosts_try e w))"
proof -
  have upd: "R w (snd (updateLastCheck e ''instagram'' cid ts (snd (scrapeProfile e w))))" for cid ts
    using R_scrape R_update by (rule R_trans)
  show ?thesis
    unfolding checkForNewPosts_try_def
    by (simp add: split_beta Let_def R_refl R_scrape upd del: unseenPosts.simps
        split: sum.split list.split)
qed

lemma checkForNewPosts_rel:
  assumes R_refl: "\<And>w. R w w"
    and R_trans: "\<And>a b c. R a b \<Longrightarrow> R b c \<Longrightarrow> R a c"
    and R_scrape: "\<And>w. R w (snd (scrapeProfile e w))"
    and R_update: "\<And>cid ts w. R w (snd (updateLastCheck e ''instagram'' cid ts w))"
  shows "R w (snd (checkForNewPosts e w))"
proof -
  have t: "R w (snd (checkForNewPosts_try e w))"
    by (rule checkForNewPosts_try_rel [where R = R, OF R_refl R_trans R_scrape R_update])
  have c: "R w (snd (updateLastCheck e ''instagram'' None None (snd (checkForNewPosts_try e w))))"
    using t R_update by (rule R_trans)
  show ?thesis
    unfolding checkForNewPosts_def
    using t c by (simp add: split_beta split: sum.split)
qed

lemma checkForNewPosts_try_unsent:
  "case fst (checkForNewPosts_try e w) of
     Inl _ \<Rightarrow> True
   | Inr r \<Rightarrow> set (newContent r) \<subseteq> {c. \<not> sent ''instagram'' (item_id c) w}"
proof -
  define ok where "ok = (\<lambda>x :: (string + check_result) \<times> world.
     case fst x of Inl _ \<Rightarrow> True
     | Inr r \<Rightarrow> set (newContent r) \<subseteq> {c. \<not> sent ''instagram'' (item_id c) w})"
  have ok_simps: "ok (Inl err, v) = True"
    "ok (Inr r, v) = (set (newContent r) \<subseteq> {c. \<not> sent ''instagram'' (item_id c) w})"
    for err r v by (simp_all add: ok_def)
  have fr: "sent ''instagram'' c (snd (scrapeProfile e w)) = sent ''instagram'' c w" for c
    using scrapeProfile_frame [of e w] by (simp add: sent_def)
  have "ok (checkForNewPosts_try e w)"
    unfolding checkForNewPosts_try_def
    by (auto simp add: split_beta Let_def ok_simps failed_def found_def unseenPosts_eq fr
        simp del: unseenPosts.simps split: sum.split list.split option.split if_splits)
  then show ?thesis by (simp add: ok_def)
qed

lemma checkForNewPosts_unsent:
  "c \<in> set (newContent (fst (checkForNewPosts e w))) \<Longrightarrow> \<not> sent ''instagram'' (item_id c) w"
  using checkForNewPosts_try_unsent [where e = e and w = w]
  unfolding checkForNewPosts_def
  by (cases "checkForNewPosts_try e w"; cases "fst (checkForNewPosts_try e w)")
     (auto simp: failed_def)

lemma checkForNewVideos_try_rel:
  assumes R_refl: "\<And>w. R w w"
    and R_update: "\<And>cid ts w. R w (snd (updateLastCheck e ''youtube'' cid ts w))"
  shows "R w (snd (checkForNewVideos_try e w))"
  unfolding checkForNewVideos_try_def
  by (simp add: split_beta Let_def R_refl R_update del: unseenPosts.simps
      split: sum.split list.split)

lemma checkForNewVideos_rel:
  assumes R_refl: "\<And>w. R w w"
    and R_update: "\<And>cid ts w. R w (snd (updateLastCheck e ''youtube'' cid ts w))"
  shows "R w (snd (checkForNewVideos e w))"
  unfolding checkForNewVideos_def
  using checkForNewVideos_try_rel [where R = R and w = w, OF R_refl R_update]
  by (simp add: split_beta split: sum.split)

lemma checkForNewVideos_try_unsent:
  "case fst (checkForNewVideos_try e w) of
     Inl _ \<Rightarrow> True
   | Inr r \<Rightarrow> set (newContent r) \<subseteq> {c. \<not> sent ''youtube'' (item_id c) w}"
proof -
  define ok where "ok = (\<lambda>x :: (string + check_result) \<times> world.
     case fst x of Inl _ \<Rightarrow> True
     | Inr r \<Rightarrow> set (newContent r) \<subseteq> {c. \<not> sent ''youtube'' (item_id c) w})"
  have ok_simps: "ok (Inl err, v) = True"
    "ok (Inr r, v) = (set (newContent r) \<subseteq> {c. \<not> sent ''youtube'' (item_id c) w})"
    for err r v by (simp_all add: ok_def)
  have "ok (checkForNewVideos_try e w)"
    unfolding checkForNewVideos_try_def
    by (auto simp add: split_beta Let_def ok_simps failed_def found_def unseenPosts_eq
        simp del: unseenPosts.simps split: sum.split list.split option.split if_splits)
  then show ?thesis by (simp add: ok_def)
qed

lemma checkForNewVideos_unsent:
  "c \<in> set (newContent (fst (checkForNewVideos e w))) \<Longrightarrow> \<not> sent ''youtube'' (item_id c) w"
  using checkForNewVideos_try_unsent [where e = e and w = w]
  unfolding checkForNewVideos_def
  by (cases "checkForNewVideos_try e w"; cases "fst (checkForNewVideos_try e w)")
     (auto simp: failed_def)

lemma linkedin_scrapeProfile_frame:
  "sent_notifications (snd (linkedin_scrapeProfile e w)) = sent_notifications w \<and>
   last_updates (snd (linkedin_scrapeProfile e w)) = last_updates w \<and>
   sent_notifications_seq (snd (linkedin_scrapeProfile e w)) = sent_notifications_seq w \<and>
   last_updates_seq (snd (linkedin_scrapeProfile e w)) = last_updates_seq w \<and>
   clock w \<le> clock (snd (linkedin_scrapeProfile e w))"
  by (auto simp: linkedin_scrapeProfile_def linkedin_respectRateLimit_def sleep_def emit_def
      Let_def split: option.splits)

lemma linkedin_checkForNewPosts_try_rel:
  assumes R_refl: "\<And>w. R w w"
    and R_trans: "\<And>a b c. R a b \<Longrightarrow> R b c \<Longrightarrow> R a c"
    and R_scrape: "\<And>w. R w (snd (linkedin_scrapeProfile e w))"
    and R_update: "\<And>cid ts w. R w (snd (updateLastCheck e ''linkedin'' cid ts w))"
  shows "R w (snd (linkedin_checkForNewPosts_try e w))"
proof -
  have upd: "R w (snd (updateLastCheck e ''linkedin'' cid ts (snd (linkedin_scrapeProfile e w))))"
    for cid ts
    using R_scrape R_update by (rule R_trans)
  show ?thesis
    unfolding linkedin_checkForNewPosts_try_def
    by (simp add: split_beta Let_def R_refl R_scrape upd del: unseenPosts.simps
        split: sum.split list.split)
qed

lemma linkedin_checkForNewPosts_rel:
  assumes R_refl: "\<And>w. R w w"
    and R_trans: "\<And>a b c. R a b \<Longrightarrow> R b c \<Longrightarrow> R a c"
    and R_scrape: "\<And>w. R w (snd (linkedin_scrapeProfile e w))"
    and R_update: "\<And>cid ts w. R w (snd (updateLastCheck e ''linkedin'' cid ts w))"
  shows "R w (snd (linkedin_checkForNewPosts e w))"
  unfolding linkedin_checkForNewPosts_def
  using linkedin_checkForNewPosts_try_rel [where R = R and w = w, OF R_refl R_trans R_scrape R_update]
  by (simp add: split_beta split: sum.split)

lemma linkedin_checkForNewPosts_try_unsent:
  "case fst (linkedin_checkForNewPosts_try e w) of
     Inl _ \<Rightarrow> True
   | Inr r \<Rightarrow> set (newContent r) \<subseteq> {c. \<not> sent ''linkedin'' (item_id c) w}"
proof -
  define ok where "ok = (\<lambda>x :: (string + check_result) \<times> world.
     case fst x of Inl _ \<Rightarrow> True
     | Inr r \<Rightarrow> set (newContent r) \<subseteq> {c. \<not> sent ''linkedin'' (item_id c) w})"
  have ok_simps: "ok (Inl err, v) = True"
    "ok (Inr r, v) = (set (newContent r) \<subseteq> {c. \<not> sent ''linkedin'' (item_id c) w})"
    for err r v by (simp_all add: ok_def)
  have fr: "sent ''linkedin'' c (snd (linkedin_scrapeProfile e w)) = sent ''linkedin'' c w" for c
    using linkedin_scrapeProfile_frame [of e w] by (simp add: sent_def)
  have "ok (linkedin_checkForNewPosts_try e w)"
    unfolding linkedin_checkForNewPosts_try_def
    by (auto simp add: split_beta Let_def ok_simps failed_def found_def unseenPosts_eq fr
        simp del: unseenPosts.simps split: sum.split list.split option.split if_splits)
  then show ?thesis by (simp add: ok_def)
qed

lemma linkedin_checkForNewPosts_unsent:
  "c \<in> set (newContent (fst (linkedin_checkForNewPosts e w))) \<Longrightarrow>
   \<not> sent ''linkedin'' (item_id c) w"
  using linkedin_checkForNewPosts_try_unsent [where e = e and w = w]
  unfolding linkedin_checkForNewPosts_def
  by (cases "linkedin_checkForNewPosts_try e w"; cases "fst (linkedin_checkForNewPosts_try e w)")
     (auto simp: failed_def)

section \<open>C1: an item recorded as sent is not reported again\<close>

text \<open>
  C1. For each of the three pollers: an item whose \<open>(platform, id)\<close> has a row in
  \<open>sent_notifications\<close> when the check starts is not in the \<open>newContent\<close> the check
  returns, whatever the cursor, the fetch and the engine do.
\<close>

theorem sent_item_never_reported:
  "(sent ''youtube'' (item_id c) w \<longrightarrow> c \<notin> set (newContent (fst (checkForNewVideos e w)))) \<and>
   (sent ''instagram'' (item_id c) w \<longrightarrow> c \<notin> set (newContent (fst (checkForNewPosts e w)))) \<and>
   (sent ''linkedin'' (item_id c) w \<longrightarrow>
      c \<notin> set (newContent (fst (linkedin_checkForNewPosts e w))))"
  using checkForNewVideos_unsent [where c = c and e = e and w = w]
    checkForNewPosts_unsent [where c = c and e = e and w = w]
    linkedin_checkForNewPosts_unsent [where c = c and e = e and w = w]
  by blast

theorem sent_item_never_reported_witness:
  "sent ''youtube'' (item_id item_x1) sent_world \<and>
   item_x1 \<notin> set (newContent (fst (checkForNewVideos feed_env sent_world))) \<and>
   sent ''instagram'' (item_id item_x1) sent_world \<and>
   item_x1 \<notin> set (newContent (fst (checkForNewPosts feed_env sent_world))) \<and>
   sent ''linkedin'' (item_id item_x1) sent_world \<and>
   item_x1 \<notin> set (newContent (fst (linkedin_checkForNewPosts feed_env sent_world)))"
  using sent_item_never_reported [where c = item_x1 and w = sent_world and e = feed_env]
  by (simp add: sent_def sent_world_def item_x1_def)

text \<open>The same fetch on the empty store reports the item: the exclusion is the row's doing.\<close>

lemma unsent_item_reported:
  "newContent (fst (checkForNewVideos feed_env example_world)) = [item_x1]"
  "newContent (fst (checkForNewPosts feed_env example_world)) = [item_x1]"
  "newContent (fst (linkedin_checkForNewPosts feed_env example_world)) = [item_x1]"
  by code_simp+

section \<open>The pollers on a working store\<close>

lemma fst_updateLastCheck:
  "fst (updateLastCheck e p cid ts w) =
     (case sqlite_error e OpUpdateLastCheck of Some err \<Rightarrow> Inl err | None \<Rightarrow> Inr ())"
  by (simp add: updateLastCheck_def Let_def split: option.splits)





lemma cursor_after_update:
  "sqlite_error e OpUpdateLastCheck = None \<Longrightarrow>
   cursor_timestamp p (snd (updateLastCheck e p cid ts w)) = ts \<and>
   cursor_content_id p (snd (updateLastCheck e p cid ts w)) = cid \<and>
   check_time p (snd (updateLastCheck e p cid ts w)) = Some (CURRENT_TIMESTAMP w)"
  by (simp add: cursor_timestamp_def cursor_content_id_def check_time_def cursor_row_updateLastCheck)



section \<open>C3: the cursor is a strict lower bound, and advances to the newest item\<close>



section \<open>C4: a fetch that returns no items\<close>

lemma clock_updateLastCheck [simp]: "clock (snd (updateLastCheck e p cid ts w)) = clock w"
  by (simp add: updateLastCheck_def emit_def Let_def split: option.splits)

lemma CURRENT_TIMESTAMP_updateLastCheck [simp]:
  "CURRENT_TIMESTAMP (snd (updateLastCheck e p cid ts w)) = CURRENT_TIMESTAMP w"
  by (simp add: CURRENT_TIMESTAMP_def)

lemma checkForNewPosts_empty:
  assumes "instagram_configured e"
    and "sqlite_error e OpGetLastUpdate = None"
    and "sqlite_error e OpUpdateLastCheck = None"
    and "f_success (fst (scrapeProfile e w))"
    and "f_posts (fst (scrapeProfile e w)) = []"
  shows "checkForNewPosts e w =
     (found [] 0, snd (updateLastCheck e ''instagram'' None None (snd (scrapeProfile e w))))"
  unfolding checkForNewPosts_def checkForNewPosts_try_def
  using assms
  by (simp add: split_beta Let_def getLastUpdate_def fst_updateLastCheck)

lemma linkedin_checkForNewPosts_empty:
  assumes "linkedin_configured e"
    and "sqlite_error e OpGetLastUpdate = None"
    and "sqlite_error e OpUpdateLastCheck = None"
    and "f_success (fst (linkedin_scrapeProfile e w))"
    and "f_posts (fst (linkedin_scrapeProfile e w)) = []"
  shows "linkedin_checkForNewPosts e w =
     (found [] 0, snd (updateLastCheck e ''linkedin'' None None (snd (linkedin_scrapeProfile e w))))"
  unfolding linkedin_checkForNewPosts_def linkedin_checkForNewPosts_try_def
  using assms
  by (simp add: split_beta Let_def getLastUpdate_def fst_updateLastCheck)

text \<open>
  YouTube's check has no \<open>else\<close> beside \<open>if (latestVideo)\<close>: when the fetch returns no
  videos the store is not written at all, so not even \<open>last_check_time\<close> moves.
\<close>

lemma checkForNewVideos_empty_fetch:
  "f_posts (getLatestVideos e) = [] \<Longrightarrow> snd (checkForNewVideos e w) = w"
  unfolding checkForNewVideos_def checkForNewVideos_try_def
  by (simp add: split_beta Let_def split: sum.split)

text \<open>
  C4, as stated, fails. On a store whose Instagram cursor holds item \<open>p1\<close>, a fetch that
  succeeds with no posts leaves the cursor's content fields null, not unchanged.
\<close>

theorem empty_fetch_counterexample:
  "f_success (fst (scrapeProfile example_env cursor_world)) \<and>
   f_posts (fst (scrapeProfile example_env cursor_world)) = [] \<and>
   cursor_content_id ''instagram'' cursor_world = Some ''p1'' \<and>
   cursor_timestamp ''instagram'' cursor_world = Some 1699998000000 \<and>
   cursor_content_id ''instagram'' (snd (checkForNewPosts example_env cursor_world)) = None \<and>
   cursor_timestamp ''instagram'' (snd (checkForNewPosts example_env cursor_world)) = None"
  by (code_simp)

text \<open>
  C4, amended. For the Instagram and the LinkedIn poller, on a working store: when the
  fetch succeeds with no items, the check succeeds with no new content and upserts the
  cursor row with nulls: afterwards \<open>last_check_time\<close> is the current time, and
  \<open>last_content_id\<close> and \<open>last_content_timestamp\<close> are null, whatever they were before.
\<close>

theorem empty_fetch_overwrites_cursor:
  assumes "sqlite_error e OpGetLastUpdate = None"
    and "sqlite_error e OpUpdateLastCheck = None"
  shows
    "(instagram_configured e \<and> f_success (fst (scrapeProfile e w)) \<and>
      f_posts (fst (scrapeProfile e w)) = [] \<longrightarrow>
        success (fst (checkForNewPosts e w)) \<and>
        newContent (fst (checkForNewPosts e w)) = [] \<and>
        check_time ''instagram'' (snd (checkForNewPosts e w)) =
          Some (CURRENT_TIMESTAMP (snd (checkForNewPosts e w))) \<and>
        clock w \<le> clock (snd (checkForNewPosts e w)) \<and>
        cursor_content_id ''instagram'' (snd (checkForNewPosts e w)) = None \<and>
        cursor_timestamp ''instagram'' (snd (checkForNewPosts e w)) = None) \<and>
     (linkedin_configured e \<and> f_success (fst (linkedin_scrapeProfile e w)) \<and>
      f_posts (fst (linkedin_scrapeProfile e w)) = [] \<longrightarrow>
        success (fst (linkedin_checkForNewPosts e w)) \<and>
        newContent (fst (linkedin_checkForNewPosts e w)) = [] \<and>
        check_time ''linkedin'' (snd (linkedin_checkForNewPosts e w)) =
          Some (CURRENT_TIMESTAMP (snd (linkedin_checkForNewPosts e w))) \<and>
        clock w \<le> clock (snd (linkedin_checkForNewPosts e w)) \<and>
        cursor_content_id ''linkedin'' (snd (linkedin_checkForNewPosts e w)) = None \<and>
        cursor_timestamp ''linkedin'' (snd (linkedin_checkForNewPosts e w)) = None)"
proof (intro conjI impI)
  {
    assume h: "instagram_configured e \<and> f_success (fst (scrapeProfile e w)) \<and>
      f_posts (fst (scrapeProfile e w)) = []"
    have run: "checkForNewPosts e w =
        (found [] 0, snd (updateLastCheck e ''instagram'' None None (snd (scrapeProfile e w))))"
      using h assms by (simp add: checkForNewPosts_empty)
    show "success (fst (checkForNewPosts e w))"
      and "newContent (fst (checkForNewPosts e w)) = []"
      and "check_time ''instagram'' (snd (checkForNewPosts e w)) =
          Some (CURRENT_TIMESTAMP (snd (checkForNewPosts e w)))"
      and "clock w \<le> clock (snd (checkForNewPosts e w))"
      and "cursor_content_id ''instagram'' (snd (checkForNewPosts e w)) = None"
      and "cursor_timestamp ''instagram'' (snd (checkForNewPosts e w)) = None"
      using assms(2) scrapeProfile_frame [of e w]
      by (simp_all add: run found_def cursor_after_update)
  }
  {
    assume h: "linkedin_configured e \<and> f_success (fst (linkedin_scrapeProfile e w)) \<and>
      f_posts (fst (linkedin_scrapeProfile e w)) = []"
    have run: "linkedin_checkForNewPosts e w =
        (found [] 0, snd (updateLastCheck e ''linkedin'' None None (snd (linkedin_scrapeProfile e w))))"
      using h assms by (simp add: linkedin_checkForNewPosts_empty)
    show "success (fst (linkedin_checkForNewPosts e w))"
      and "newContent (fst (linkedin_checkForNewPosts e w)) = []"
      and "check_time ''linkedin'' (snd (linkedin_checkForNewPosts e w)) =
          Some (CURRENT_TIMESTAMP (snd (linkedin_checkForNewPosts e w)))"
      and "clock w \<le> clock (snd (linkedin_checkForNewPosts e w))"
      and "cursor_content_id ''linkedin'' (snd (linkedin_checkForNewPosts e w)) = None"
      and "cursor_timestamp ''linkedin'' (snd (linkedin_checkForNewPosts e w)) = None"
      using assms(2) linkedin_scrapeProfile_frame [of e w]
      by (simp_all add: run found_def cursor_after_update)
  }
qed

theorem empty_fetch_overwrites_cursor_witness:
  "sqlite_error example_env OpGetLastUpdate = None \<and>
   sqlite_error example_env OpUpdateLastCheck = None \<and>
   instagram_configured example_env \<and>
   f_success (fst (scrapeProfile example_env cursor_world)) \<and>
   f_posts (fst (scrapeProfile example_env cursor_world)) = [] \<and>
   linkedin_configured example_env \<and>
   f_success (fst (linkedin_scrapeProfile example_env cursor_world)) \<and>
   f_posts (fst (linkedin_scrapeProfile example_env cursor_world)) = [] \<and>
   check_time ''instagram'' cursor_world = Some 1699999000 \<and>
   check_time ''instagram'' (snd (checkForNewPosts example_env cursor_world)) =
     Some (CURRENT_TIMESTAMP (snd (checkForNewPosts example_env cursor_world))) \<and>
   cursor_content_id ''instagram'' (snd (checkForNewPosts example_env cursor_world)) = None \<and>
   cursor_content_id ''linkedin'' (snd (linkedin_checkForNewPosts example_env cursor_world)) = None"
proof -
  have fetch: "f_success (fst (scrapeProfile example_env cursor_world))"
    "f_posts (fst (scrapeProfile example_env cursor_world)) = []"
    "f_success (fst (linkedin_scrapeProfile example_env cursor_world))"
    "f_posts (fst (linkedin_scrapeProfile example_env cursor_world)) = []"
    "check_time ''instagram'' cursor_world = Some 1699999000"
    by code_simp+
  show ?thesis
    using empty_fetch_overwrites_cursor [where e = example_env and w = cursor_world] fetch
    by (simp add: example_env_def)
qed

section \<open>C10: Instagram's \<open>catch\<close> resets the cursor\<close>



section \<open>Instagram's retry loop\<close>

lemma request_times_append [simp]:
  "request_times (xs @ ys) = request_times xs @ request_times ys"
  by (induction xs rule: request_times.induct) simp_all

lemma since_append [simp]: "journal w' = journal w @ evs \<Longrightarrow> since w w' = evs"
  by (simp add: since_def)

lemma since_self [simp]: "since w w = []"
  by (simp add: since_def)



lemma respectRateLimit_facts:
  "journal (respectRateLimit w) = journal w"
  "instagram_failureCount (respectRateLimit w) = instagram_failureCount w"
  "instagram_lastRequestTime (respectRateLimit w) = clock (respectRateLimit w)"
  "instagram_lastRequestTime w + currentDelay w \<le> instagram_lastRequestTime (respectRateLimit w)"
  "clock w \<le> clock (respectRateLimit w)"
  by (simp_all add: respectRateLimit_def sleep_def Let_def currentDelay_def)

lemma scrapeProfile_try_unconfigured:
  "\<not> instagram_configured e \<Longrightarrow>
   scrapeProfile_try e a w = (Inl (None, ''Instagram service not configured''), w)"
  by (simp add: scrapeProfile_try_def)











section \<open>C7: a failure that is not a rate limit\<close>




section \<open>C8: the retry loop is bounded, and backs off\<close>



text \<open>After one failure and with every attempt failing: three requests, 20, 40 and 80 seconds after the one before.\<close>

lemma backoff_run:
  "request_times (since backoff_world (snd (scrapeProfile down_env backoff_world))) =
     [1700000010000, 1700000050000, 1700000130000]"
  by (code_simp)

section \<open>Delivery\<close>

lemma channel_attempts_append [simp]:
  "channel_attempts p (xs @ ys) = channel_attempts p xs @ channel_attempts p ys"
  by (induction p xs rule: channel_attempts.induct) simp_all

lemma record_calls_append [simp]:
  "record_calls p (xs @ ys) = record_calls p xs @ record_calls p ys"
  by (induction p xs rule: record_calls.induct) simp_all




lemma journal_recordSentNotification:
  "journal (snd (recordSentNotification e p cid url mid w)) =
     journal w @ [EvRecordSentNotification p cid]"
  by (simp add: recordSentNotification_def emit_def Let_def split: option.splits)

lemma sent_emit [simp]: "sent q x (emit ev w) = sent q x w"
  by (simp add: sent_def emit_def)

lemma sent_sleep [simp]: "sent q x (sleep ms w) = sent q x w"
  by (simp add: sent_def sleep_def)






section \<open>C9: a failed send is not recorded, and does not stop the batch\<close>



section \<open>The order of calls in a check cycle\<close>

lemma issues_refl: "issues allowed w w"
  by (simp add: issues_def)

lemma issues_trans: "issues allowed a b \<Longrightarrow> issues allowed b c \<Longrightarrow> issues allowed a c"
  by (auto simp: issues_def)

lemma issues_same: "journal w' = journal w \<Longrightarrow> issues allowed w w'"
  by (simp add: issues_def)

lemma issues_one: "journal w' = journal w @ [ev] \<Longrightarrow> allowed ev \<Longrightarrow> issues allowed w w'"
  by (simp add: issues_def)

lemma issues_updateLastCheck:
  "issues (check_event p) w (snd (updateLastCheck e p cid ts w))"
  by (rule issues_one [where ev = "EvUpdateLastCheck p cid ts"])
     (simp_all add: updateLastCheck_def emit_def Let_def check_event_def split: option.splits)

lemma issues_scrapeProfile: "issues (check_event p) w (snd (scrapeProfile e w))"
  unfolding scrapeProfile_def
proof (rule scrapeProfile_from_rel [where R = "issues (check_event p)"])
  show "issues (check_event p) w (snd (scrapeProfile_try e a w))" for a w
  proof (cases "instagram_configured e")
    case False
    then show ?thesis by (simp add: scrapeProfile_try_unconfigured issues_refl)
  next
    case True
    show ?thesis
      by (rule issues_one [where ev = "EvHttpGet ''instagram'' (clock (respectRateLimit w))"])
         (simp_all add: scrapeProfile_try_def True Let_def emit_def respectRateLimit_facts
            check_event_def split: http_outcome.splits)
  qed
qed (simp_all add: issues_refl issues_same sleep_def, blast intro: issues_trans)

lemma issues_linkedin_scrapeProfile:
  "issues (check_event p) w (snd (linkedin_scrapeProfile e w))"
proof (cases "linkedin_configured e")
  case False
  then show ?thesis by (simp add: linkedin_scrapeProfile_def issues_refl)
next
  case True
  let ?t = "clock (linkedin_respectRateLimit w)"
  show ?thesis
    by (rule issues_one [where ev = "EvHttpGet ''linkedin'' ?t"])
       (simp_all add: linkedin_scrapeProfile_def True Let_def emit_def
          linkedin_respectRateLimit_def sleep_def check_event_def split: option.splits)
qed

lemma issues_checkForNewVideos:
  "issues (check_event ''youtube'') w (snd (checkForNewVideos e w))"
  by (rule checkForNewVideos_rel [where R = "issues (check_event ''youtube'')"])
     (simp_all add: issues_refl issues_updateLastCheck)

lemma issues_checkForNewPosts:
  "issues (check_event ''instagram'') w (snd (checkForNewPosts e w))"
  by (rule checkForNewPosts_rel [where R = "issues (check_event ''instagram'')"])
     (simp_all add: issues_refl issues_updateLastCheck issues_scrapeProfile,
      blast intro: issues_trans)

lemma issues_linkedin_checkForNewPosts:
  "issues (check_event ''linkedin'') w (snd (linkedin_checkForNewPosts e w))"
  by (rule linkedin_checkForNewPosts_rel [where R = "issues (check_event ''linkedin'')"])
     (simp_all add: issues_refl issues_updateLastCheck issues_linkedin_scrapeProfile,
      blast intro: issues_trans)

lemma issues_sendSocialMediaUpdate:
  "issues (is_delivery p) w (snd (sendSocialMediaUpdate e c p w))"
  unfolding sendSocialMediaUpdate_def issues_def
  by (auto simp: split_beta journal_recordSentNotification emit_def is_delivery_def
      split: sum.splits)

lemma sendNotifications_loop_rel:
  assumes R_refl: "\<And>w. R w w"
    and R_trans: "\<And>a b c. R a b \<Longrightarrow> R b c \<Longrightarrow> R a c"
    and R_send: "\<And>c w. R w (snd (sendSocialMediaUpdate e c p w))"
    and R_sleep: "\<And>w. R w (sleep 1000 w)"
  shows "R w (sendNotifications_loop e n items p w)"
proof (induction items arbitrary: w)
  case Nil
  show ?case by (simp add: R_refl)
next
  case (Cons item rest)
  obtain res w1 where s: "sendSocialMediaUpdate e item p w = (res, w1)"
    by (cases "sendSocialMediaUpdate e item p w")
  have w1: "R w w1" using R_send [of w item] by (simp add: s)
  have w2: "R w (sleep 1000 w1)" using w1 R_sleep by (rule R_trans)
  show ?case
  proof (cases res)
    case (Inl err)
    show ?thesis using R_trans [OF w1 Cons.IH [of w1]] by (simp add: s Inl)
  next
    case (Inr mid)
    show ?thesis
      using R_trans [OF w1 Cons.IH [of w1]] R_trans [OF w2 Cons.IH [of "sleep 1000 w1"]]
      by (simp add: s Inr)
  qed
qed

lemma issues_sendNotifications:
  "issues (is_delivery p) w (sendNotifications e items p w)"
  unfolding sendNotifications_def
  by (rule sendNotifications_loop_rel [where R = "issues (is_delivery p)"])
     (simp_all add: issues_refl issues_sendSocialMediaUpdate issues_same sleep_def,
      blast intro: issues_trans)

lemma issues_sendErrorSummary:
  "issues (\<lambda>ev. \<forall>p. \<not> is_cursor_update p ev \<and> \<not> is_delivery p ev) w (sendErrorSummary e results w)"
  unfolding sendErrorSummary_def issues_def
  by (simp add: Let_def emit_def is_cursor_update_def is_delivery_def)

lemma check_event_no_delivery:
  "list_all (check_event q) evs \<Longrightarrow> list_all (\<lambda>ev. \<not> is_delivery p ev) evs"
  by (induction evs) (auto simp: check_event_def is_delivery_def split: event.splits)

lemma check_event_other_cursor:
  "list_all (check_event q) evs \<Longrightarrow> p \<noteq> q \<Longrightarrow> list_all (\<lambda>ev. \<not> is_cursor_update p ev) evs"
  by (induction evs) (auto simp: check_event_def is_cursor_update_def split: event.splits)

lemma delivery_no_cursor:
  "list_all (is_delivery q) evs \<Longrightarrow> list_all (\<lambda>ev. \<not> is_cursor_update p ev) evs"
  by (induction evs) (auto simp: is_delivery_def is_cursor_update_def split: event.splits)

lemma delivery_other_platform:
  "list_all (is_delivery q) evs \<Longrightarrow> p \<noteq> q \<Longrightarrow> list_all (\<lambda>ev. \<not> is_delivery p ev) evs"
  by (induction evs) (auto simp: is_delivery_def split: event.splits)

lemma neutral_events:
  assumes "list_all (\<lambda>ev. \<forall>p. \<not> is_cursor_update p ev \<and> \<not> is_delivery p ev) evs"
  shows "list_all (\<lambda>ev. \<not> is_cursor_update p ev) evs"
    and "list_all (\<lambda>ev. \<not> is_delivery p ev) evs"
  using assms by (simp_all add: list_all_iff)

text \<open>A journal made of calls that deliver nothing for \<open>p\<close>, then calls that leave its cursor alone.\<close>

lemma cursor_update_first_split:
  assumes "list_all (\<lambda>ev. \<not> is_delivery p ev) xs"
    and "list_all (\<lambda>ev. \<not> is_cursor_update p ev) ys"
  shows "cursor_update_first p (xs @ ys)"
proof -
  have "dropWhile (\<lambda>ev. \<not> is_delivery p ev) (xs @ ys) = dropWhile (\<lambda>ev. \<not> is_delivery p ev) ys"
    using assms(1) by (intro dropWhile_append2) (simp add: list_all_iff)
  moreover have "\<not> is_cursor_update p ev"
    if "ev \<in> set (dropWhile (\<lambda>ev. \<not> is_delivery p ev) ys)" for ev
    using set_dropWhileD [OF that] assms(2) by (simp add: list_all_iff)
  ultimately show ?thesis
    by (auto simp: cursor_update_first_def list_ex_iff)
qed

lemma checkPlatform_journal:
  assumes "\<And>w. issues (check_event p) w (snd (check e w))"
  shows "\<exists>A S. journal (snd (checkPlatform e configured check name p w)) = journal w @ A @ S \<and>
     list_all (check_event p) A \<and> list_all (is_delivery p) S"
proof (cases configured)
  case False
  then show ?thesis by (simp add: checkPlatform_def)
next
  case True
  obtain result w1 where c: "check e w = (result, w1)" by (cases "check e w")
  obtain A where A: "journal w1 = journal w @ A" "list_all (check_event p) A"
    using assms [of w] by (auto simp: c issues_def)
  obtain S where S: "journal (sendNotifications e (newContent result) p w1) = journal w1 @ S"
      "list_all (is_delivery p) S"
    using issues_sendNotifications [of p w1 e "newContent result"] by (auto simp: issues_def)
  show ?thesis
  proof (cases "success result \<and> 0 < length (newContent result)")
    case True
    then have "journal (snd (checkPlatform e configured check name p w)) = journal w @ A @ S"
      using \<open>configured\<close> A S by (simp add: checkPlatform_def c)
    then show ?thesis using A(2) S(2) by blast
  next
    case False
    then have "snd (checkPlatform e configured check name p w) = w1"
      using \<open>configured\<close> by (auto simp: checkPlatform_def c)
    then have "journal (snd (checkPlatform e configured check name p w)) = journal w @ A @ []"
      using A by simp
    moreover have "list_all (is_delivery p) []" by simp
    ultimately show ?thesis using A(2) by blast
  qed
qed

lemma performScheduledCheck_journal:
  "\<exists>A1 S1 A2 S2 A3 S3 M.
     journal (performScheduledCheck e w) = journal w @ A1 @ S1 @ A2 @ S2 @ A3 @ S3 @ M \<and>
     list_all (check_event ''youtube'') A1 \<and> list_all (is_delivery ''youtube'') S1 \<and>
     list_all (check_event ''instagram'') A2 \<and> list_all (is_delivery ''instagram'') S2 \<and>
     list_all (check_event ''linkedin'') A3 \<and> list_all (is_delivery ''linkedin'') S3 \<and>
     list_all (\<lambda>ev. \<forall>p. \<not> is_cursor_update p ev \<and> \<not> is_delivery p ev) M"
proof -
  obtain r1 w1 where b1:
    "checkPlatform e (youtube_configured e) checkForNewVideos ''YouTube'' ''youtube'' w = (r1, w1)"
    by (cases "checkPlatform e (youtube_configured e) checkForNewVideos ''YouTube'' ''youtube'' w")
  obtain r2 w2 where b2:
    "checkPlatform e (instagram_configured e) checkForNewPosts ''Instagram'' ''instagram'' w1 = (r2, w2)"
    by (cases "checkPlatform e (instagram_configured e) checkForNewPosts ''Instagram'' ''instagram'' w1")
  obtain r3 w3 where b3:
    "checkPlatform e (linkedin_configured e) linkedin_checkForNewPosts ''LinkedIn'' ''linkedin'' w2 =
       (r3, w3)"
    by (cases "checkPlatform e (linkedin_configured e) linkedin_checkForNewPosts ''LinkedIn''
          ''linkedin'' w2")
  obtain A1 S1 where j1: "journal w1 = journal w @ A1 @ S1"
      "list_all (check_event ''youtube'') A1" "list_all (is_delivery ''youtube'') S1"
    using checkPlatform_journal [where check = checkForNewVideos and p = "''youtube''" and e = e
        and w = w and configured = "youtube_configured e" and name = "''YouTube''",
        OF issues_checkForNewVideos]
    by (auto simp: b1)
  obtain A2 S2 where j2: "journal w2 = journal w1 @ A2 @ S2"
      "list_all (check_event ''instagram'') A2" "list_all (is_delivery ''instagram'') S2"
    using checkPlatform_journal [where check = checkForNewPosts and p = "''instagram''" and e = e
        and w = w1 and configured = "instagram_configured e" and name = "''Instagram''",
        OF issues_checkForNewPosts]
    by (auto simp: b2)
  obtain A3 S3 where j3: "journal w3 = journal w2 @ A3 @ S3"
      "list_all (check_event ''linkedin'') A3" "list_all (is_delivery ''linkedin'') S3"
    using checkPlatform_journal [where check = linkedin_checkForNewPosts and p = "''linkedin''"
        and e = e and w = w2 and configured = "linkedin_configured e" and name = "''LinkedIn''",
        OF issues_linkedin_checkForNewPosts]
    by (auto simp: b3)
  obtain M where m: "journal (sendErrorSummary e (r1 @ r2 @ r3) w3) = journal w3 @ M"
      "list_all (\<lambda>ev. \<forall>p. \<not> is_cursor_update p ev \<and> \<not> is_delivery p ev) M"
    using issues_sendErrorSummary [of w3 e "r1 @ r2 @ r3"] by (auto simp: issues_def)
  have run: "performScheduledCheck e w = sendErrorSummary e (r1 @ r2 @ r3) w3 \<or>
      performScheduledCheck e w = w3"
    by (simp add: performScheduledCheck_def b1 b2 b3 Let_def)
  then show ?thesis
  proof
    assume "performScheduledCheck e w = sendErrorSummary e (r1 @ r2 @ r3) w3"
    then have "journal (performScheduledCheck e w) =
        journal w @ A1 @ S1 @ A2 @ S2 @ A3 @ S3 @ M"
      using j1(1) j2(1) j3(1) m(1) by simp
    then show ?thesis
      using j1(2,3) j2(2,3) j3(2,3) m(2) by blast
  next
    assume "performScheduledCheck e w = w3"
    then have "journal (performScheduledCheck e w) =
        journal w @ A1 @ S1 @ A2 @ S2 @ A3 @ S3 @ []"
      using j1(1) j2(1) j3(1) by simp
    moreover have "list_all (\<lambda>ev. \<forall>p. \<not> is_cursor_update p ev \<and> \<not> is_delivery p ev) []"
      by simp
    ultimately show ?thesis
      using j1(2,3) j2(2,3) j3(2,3) by blast
  qed
qed

lemma last_updates_sendSocialMediaUpdate:
  "last_updates (snd (sendSocialMediaUpdate e c p w)) = last_updates w"
  unfolding sendSocialMediaUpdate_def
  by (simp add: split_beta recordSentNotification_frame emit_def split: sum.splits)

lemma last_updates_sendNotifications:
  "last_updates (sendNotifications e items p w) = last_updates w"
  unfolding sendNotifications_def
  by (rule sendNotifications_loop_rel [where R = "\<lambda>w w'. last_updates w' = last_updates w"])
     (simp_all add: last_updates_sendSocialMediaUpdate sleep_def)

section \<open>C2: where the cursor update stands in a check cycle\<close>

text \<open>
  C2, as stated, fails. In a cycle with only YouTube configured and one new video, the
  cursor is written first, by \<open>checkForNewVideos\<close>; the channel send and the record of
  it follow. The cursor update is not the last call for the source.
\<close>

theorem cursor_update_counterexample:
  "since example_world (performScheduledCheck youtube_only_env example_world) =
     [EvUpdateLastCheck ''youtube'' (Some ''x1'') (Some 1699999999000),
      EvChannelSend ''youtube'' ''x1'' True,
      EvRecordSentNotification ''youtube'' ''x1''] \<and>
   \<not> cursor_update_last ''youtube''
       (since example_world (performScheduledCheck youtube_only_env example_world))"
  by (code_simp)

text \<open>
  What follows from that order: when the channel refuses the video, the cycle still
  leaves the cursor on it, unrecorded; five minutes later the same fetch reports
  nothing new.
\<close>

lemma refused_item_not_retried:
  "cursor_content_id ''youtube'' (performScheduledCheck refusing_env example_world) = Some ''x1''"
  "\<not> sent ''youtube'' ''x1'' (performScheduledCheck refusing_env example_world)"
  "newContent (fst (checkForNewVideos refusing_env
      (sleep 300000 (performScheduledCheck refusing_env example_world)))) = []"
  by (code_simp)+

text \<open>
  C2, amended. In every check cycle and for every source, the cursor update is issued
  inside the source's \<open>checkForNew\<close>, before any of that source's notification sends:
  once a send (or the record of one) has been issued for the source, its cursor is not
  written again in that cycle, and \<open>sendNotifications\<close> leaves the cursor table as it is.
\<close>

theorem cursor_updated_before_sends:
  "cursor_update_first p (since w (performScheduledCheck e w)) \<and>
   last_updates (sendNotifications e items p w) = last_updates w"
proof
  obtain A1 S1 A2 S2 A3 S3 M where
    j: "journal (performScheduledCheck e w) = journal w @ A1 @ S1 @ A2 @ S2 @ A3 @ S3 @ M"
    and a1: "list_all (check_event ''youtube'') A1" and s1: "list_all (is_delivery ''youtube'') S1"
    and a2: "list_all (check_event ''instagram'') A2" and s2: "list_all (is_delivery ''instagram'') S2"
    and a3: "list_all (check_event ''linkedin'') A3" and s3: "list_all (is_delivery ''linkedin'') S3"
    and m: "list_all (\<lambda>ev. \<forall>p. \<not> is_cursor_update p ev \<and> \<not> is_delivery p ev) M"
    using performScheduledCheck_journal [of e w] by blast
  have s: "since w (performScheduledCheck e w) = A1 @ S1 @ A2 @ S2 @ A3 @ S3 @ M"
    using j by (rule since_append)
  note nd = check_event_no_delivery [where p = p]
  note nc = delivery_no_cursor [where p = p]
  note mm = neutral_events [OF m, where p = p]
  show "cursor_update_first p (since w (performScheduledCheck e w))"
  proof (cases "p = ''youtube''")
    case True
    have ig: "p \<noteq> ''instagram''" and li: "p \<noteq> ''linkedin''" using True by simp_all
    have "cursor_update_first p (A1 @ (S1 @ A2 @ S2 @ A3 @ S3 @ M))"
      by (rule cursor_update_first_split)
         (simp_all add: nd [OF a1] nc [OF s1] nc [OF s2] nc [OF s3] mm
            check_event_other_cursor [OF a2 ig] check_event_other_cursor [OF a3 li])
    then show ?thesis by (simp add: s)
  next
    case yt: False
    show ?thesis
    proof (cases "p = ''instagram''")
      case True
      have li: "p \<noteq> ''linkedin''" using True by simp
      have "cursor_update_first p ((A1 @ S1 @ A2) @ (S2 @ A3 @ S3 @ M))"
        by (rule cursor_update_first_split)
           (simp_all add: nd [OF a1] nd [OF a2] nc [OF s2] nc [OF s3] mm
              delivery_other_platform [OF s1 yt] check_event_other_cursor [OF a3 li])
      then show ?thesis by (simp add: s)
    next
      case ig: False
      show ?thesis
      proof (cases "p = ''linkedin''")
        case True
        have "cursor_update_first p ((A1 @ S1 @ A2 @ S2 @ A3) @ (S3 @ M))"
          by (rule cursor_update_first_split)
             (simp_all add: nd [OF a1] nd [OF a2] nd [OF a3] nc [OF s3] mm
                delivery_other_platform [OF s1 yt] delivery_other_platform [OF s2 ig])
        then show ?thesis by (simp add: s)
      next
        case li: False
        have "cursor_update_first p ((A1 @ S1 @ A2 @ S2 @ A3 @ S3 @ M) @ [])"
          by (rule cursor_update_first_split)
             (simp_all add: nd [OF a1] nd [OF a2] nd [OF a3] mm
                delivery_other_platform [OF s1 yt] delivery_other_platform [OF s2 ig]
                delivery_other_platform [OF s3 li])
        then show ?thesis by (simp add: s)
      qed
    qed
  qed
  show "last_updates (sendNotifications e items p w) = last_updates w"
    by (rule last_updates_sendNotifications)
qed

end
